theory Spec2Isabelle
  imports Complex_Main "HOL-Library.Word" "HOL-Library.Signed_Division"
begin

unbundle bit_operations_syntax

section \<open>Go values used by the alert model\<close>

text \<open>
  The embedding is of \<^verbatim>\<open>pkg/domain/model/alert.go\<close> (\<^verbatim>\<open>NewAlertID\<close>, \<^verbatim>\<open>NewAlert\<close>,
  \<^verbatim>\<open>AlertBody.Validate\<close>) and of the \<^verbatim>\<open>run\<close> command (\<^verbatim>\<open>runCommand\<close>,
  \<^verbatim>\<open>listQueryFiles\<close>). Go's \<^verbatim>\<open>int\<close> is taken at its 64-bit width (the width on every
  64-bit platform), so \<^verbatim>\<open>int\<close> and \<^verbatim>\<open>int64\<close> are both \<open>64 word\<close>, read as two's
  complement by \<open>sint\<close>.
\<close>

type_synonym int64 = "64 word"
type_synonym int32 = "32 word"

subsection \<open>float64\<close>

text \<open>
  A \<^verbatim>\<open>float64\<close> is a finite binary64 number (given by its exact rational value), an
  infinity or a NaN. The sign of zero is not kept: no operation of \<^verbatim>\<open>NewAlert\<close>
  distinguishes \<^verbatim>\<open>-0.0\<close> from \<^verbatim>\<open>0.0\<close>. Arithmetic rounds the exact result to the
  nearest binary64 number, ties to even (\<open>round_f64\<close>).
\<close>

datatype float64 = Finite rat | PosInf | NegInf | NaN

function bitlen :: "int \<Rightarrow> int" where
  "bitlen n = (if n \<le> 0 then 0 else 1 + bitlen (n div 2))"
  by pat_completeness auto
termination
  by (relation "measure nat") auto

declare bitlen.simps [simp del]

definition floor_log2 :: "rat \<Rightarrow> int" where
  \<comment> \<open>for \<open>0 < r\<close>: the \<open>e\<close> with \<open>2 powi e \<le> r < 2 powi (e + 1)\<close>\<close>
  "floor_log2 r =
     (let (p, q) = quotient_of r;
          n = bitlen p - bitlen q
      in if 2 powi n \<le> r then n else n - 1)"

definition round_half_even :: "rat \<Rightarrow> int" where
  "round_half_even x =
     (let n = \<lfloor>x\<rfloor>; d = x - of_int n
      in if d < 1 / 2 then n
         else if 1 / 2 < d then n + 1
         else if even n then n else n + 1)"

definition round_f64 :: "rat \<Rightarrow> float64" where
  \<comment> \<open>53 bits of precision, exponents from -1022 (subnormals below) to 1023\<close>
  "round_f64 r =
     (if r = 0 then Finite 0
      else
        let e = max (floor_log2 \<bar>r\<bar>) (- 1022);
            q = 2 powi (e - 52);
            y = of_int (round_half_even (r / q)) * q
        in if 2 powi 1024 \<le> \<bar>y\<bar> then (if 0 < r then PosInf else NegInf)
           else Finite y)"

definition is_float64 :: "float64 \<Rightarrow> bool" where
  \<comment> \<open>the values a Go \<^verbatim>\<open>float64\<close> can hold\<close>
  "is_float64 v = (case v of Finite r \<Rightarrow> round_f64 r = Finite r | _ \<Rightarrow> True)"

fun float64_sub :: "float64 \<Rightarrow> float64 \<Rightarrow> float64" where
  "float64_sub (Finite a) (Finite b) = round_f64 (a - b)"
| "float64_sub NaN _ = NaN"
| "float64_sub _ NaN = NaN"
| "float64_sub PosInf PosInf = NaN"
| "float64_sub NegInf NegInf = NaN"
| "float64_sub PosInf _ = PosInf"
| "float64_sub NegInf _ = NegInf"
| "float64_sub (Finite a) PosInf = NegInf"
| "float64_sub (Finite a) NegInf = PosInf"

fun float64_neg :: "float64 \<Rightarrow> float64" where
  "float64_neg (Finite a) = Finite (- a)"
| "float64_neg PosInf = NegInf"
| "float64_neg NegInf = PosInf"
| "float64_neg NaN = NaN"

fun float64_mul :: "float64 \<Rightarrow> float64 \<Rightarrow> float64" where
  "float64_mul (Finite a) (Finite b) = round_f64 (a * b)"
| "float64_mul NaN _ = NaN"
| "float64_mul _ NaN = NaN"
| "float64_mul (Finite a) x =
     (if a = 0 then NaN else if 0 < a then x else float64_neg x)"
| "float64_mul x (Finite b) =
     (if b = 0 then NaN else if 0 < b then x else float64_neg x)"
| "float64_mul PosInf x = x"
| "float64_mul NegInf x = float64_neg x"

definition rat_trunc :: "rat \<Rightarrow> int" where
  \<comment> \<open>rounding toward zero\<close>
  "rat_trunc r = (if 0 \<le> r then \<lfloor>r\<rfloor> else \<lceil>r\<rceil>)"

definition int64_of_float64 :: "(float64 \<Rightarrow> int64) \<Rightarrow> float64 \<Rightarrow> int64" where
  \<comment> \<open>The conversion \<^verbatim>\<open>int64(v)\<close>: the fraction is discarded (truncation toward zero).
      Where the value does not fit (also NaN and the infinities) the Go specification
      leaves the result to the implementation: it is the parameter \<open>oor\<close>.\<close>
  "int64_of_float64 oor v =
     (case v of
        Finite r \<Rightarrow>
          (let t = rat_trunc r
           in if - (2 ^ 63) \<le> t \<and> t < 2 ^ 63 then word_of_int t else oor v)
      | _ \<Rightarrow> oor v)"

definition float64_of_int64 :: "int64 \<Rightarrow> float64" where
  \<comment> \<open>The conversion \<^verbatim>\<open>float64(sec)\<close>, rounded to nearest.\<close>
  "float64_of_int64 s = round_f64 (of_int (sint s))"

definition int64_quo :: "int64 \<Rightarrow> int64 \<Rightarrow> int64" where
  \<comment> \<open>Go's \<^verbatim>\<open>/\<close> on \<^verbatim>\<open>int64\<close>: the quotient truncated toward zero, wrapped to 64 bits.
      The divisor is never zero where it is used.\<close>
  "int64_quo a b = word_of_int (sint a sdiv sint b)"

subsection \<open>time.Time\<close>

text \<open>
  A \<^verbatim>\<open>time.Time\<close> is read through its accessors \<^verbatim>\<open>sec()\<close> (seconds since January 1 of
  year 1, UTC) and \<^verbatim>\<open>nsec()\<close>; the location is not kept. \<^verbatim>\<open>time.Unix\<close> and
  \<^verbatim>\<open>Time.IsZero\<close> follow the standard library.
\<close>

record Time =
  sec :: int64
  nsec :: int32

definition unixToInternal :: int64 where
  "unixToInternal = (1969 * 365 + 1969 div 4 - 1969 div 100 + 1969 div 400) * 86400"

definition unixTime :: "int64 \<Rightarrow> int32 \<Rightarrow> Time" where
  "unixTime s ns = \<lparr>sec = s + unixToInternal, nsec = ns\<rparr>"

definition time_Unix :: "int64 \<Rightarrow> int64 \<Rightarrow> Time" where
  "time_Unix s ns =
     (if ns <s 0 \<or> 1000000000 \<le>s ns then
        (let n = int64_quo ns 1000000000;
             s1 = s + n;
             ns1 = ns - n * 1000000000
         in if ns1 <s 0 then unixTime (s1 - 1) (ucast (ns1 + 1000000000))
            else unixTime s1 (ucast ns1))
      else unixTime s (ucast ns))"

definition IsZero :: "Time \<Rightarrow> bool" where
  "IsZero t = (sec t = 0 \<and> nsec t = 0)"

section \<open>The alert model\<close>

subsection \<open>Dynamic values and errors\<close>

text \<open>
  \<^verbatim>\<open>AlertBody.Timestamp\<close> has type \<^verbatim>\<open>any\<close>: a value together with its dynamic type.
  The type switch of \<^verbatim>\<open>NewAlert\<close> has the cases \<^verbatim>\<open>string\<close>, \<^verbatim>\<open>int\<close> and \<^verbatim>\<open>float64\<close>;
  \<open>AInt64\<close>, \<open>AInt32\<close>, \<open>AUint64\<close>, \<open>AFloat32\<close> and \<open>ABool\<close> are values of other
  dynamic types, and \<open>AOther\<close> stands for a value of any remaining type.
\<close>

datatype any =
    ANil
  | AString string
  | AInt int64
  | AFloat64 float64
  | AInt64 int64
  | AInt32 int32
  | AUint64 "64 word"
  | AFloat32 rat
  | ABool bool
  | AOther string

text \<open>
  A \<^verbatim>\<open>goerr\<close> error: its message, the error it wraps and the values attached by
  \<^verbatim>\<open>With\<close>. The error of \<^verbatim>\<open>time.Parse\<close> is kept as its text.
\<close>

record error =
  message :: string
  cause :: "string option"
  values_of :: "string \<rightharpoonup> any"

definition goerr_New :: "string \<Rightarrow> error" where
  "goerr_New m = \<lparr>message = m, cause = None, values_of = Map.empty\<rparr>"

definition goerr_Wrap :: "string \<Rightarrow> string \<Rightarrow> error" where
  "goerr_Wrap c m = \<lparr>message = m, cause = Some c, values_of = Map.empty\<rparr>"

definition With :: "string \<Rightarrow> any \<Rightarrow> error \<Rightarrow> error" where
  "With k v e = e\<lparr>values_of := (values_of e)(k \<mapsto> v)\<rparr>"

text \<open>A call returns, or panics with the value passed to \<^verbatim>\<open>panic\<close>.\<close>

datatype 'a outcome = Panic string | Return 'a

subsection \<open>AlertBody and Alert\<close>

type_synonym AlertID = string
type_synonym JobID = string
type_synonym Attrs = "string \<rightharpoonup> any"

record AlertBody =
  Title :: string
  Description :: string
  Timestamp :: any
  Attrs :: Attrs

text \<open>
  In the source the fields of \<^verbatim>\<open>Alert\<close> are \<^verbatim>\<open>ID\<close>, \<^verbatim>\<open>Version\<close>, \<^verbatim>\<open>JobID\<close> and
  \<^verbatim>\<open>Timestamp\<close>, and \<^verbatim>\<open>AlertBody\<close> is embedded. \<open>ResolvedTimestamp\<close> is the \<^verbatim>\<open>Alert\<close>'s own
  \<^verbatim>\<open>Timestamp\<close> and \<open>Body\<close> the embedded \<^verbatim>\<open>AlertBody\<close> (whose \<^verbatim>\<open>Timestamp\<close> is the
  polymorphic one).
\<close>

record Alert =
  ID :: AlertID
  Version :: string
  JobID :: JobID
  ResolvedTimestamp :: Time
  Body :: AlertBody

definition AlertSchemaVersion :: string where
  "AlertSchemaVersion = ''v0''"

subsection \<open>What NewAlert reads from outside\<close>

text \<open>
  \<^item> \<open>time_Parse\<close>: \<^verbatim>\<open>time.Parse(time.RFC3339, v)\<close>, the error as its text;
  \<^item> \<open>time_Now\<close>: the clock; \<open>time_Now E k\<close> is what the call of \<^verbatim>\<open>time.Now()\<close> returns
    when \<open>k\<close> calls were made before it by the same \<^verbatim>\<open>NewAlert\<close>;
  \<^item> \<open>uuid_NewV7\<close>: what \<^verbatim>\<open>uuid.NewV7()\<close> returns, an error or the identifier (as its
    \<^verbatim>\<open>String()\<close>);
  \<^item> \<open>JobIDFromCtx\<close>: the job identifier carried by the context;
  \<^item> \<open>int64_out_of_range\<close>: the implementation-dependent result of \<^verbatim>\<open>int64(v)\<close> for a
    \<^verbatim>\<open>float64\<close> that does not fit.
\<close>

record 'ctx env =
  time_Parse :: "string \<Rightarrow> string + Time"
  time_Now :: "nat \<Rightarrow> Time"
  uuid_NewV7 :: "string + string"
  JobIDFromCtx :: "'ctx \<Rightarrow> JobID"
  int64_out_of_range :: "float64 \<Rightarrow> int64"

subsection \<open>NewAlertID, Validate, NewAlert\<close>

definition NewAlertID :: "'ctx env \<Rightarrow> AlertID outcome" where
  "NewAlertID E = (case uuid_NewV7 E of Inl err \<Rightarrow> Panic err | Inr i \<Rightarrow> Return i)"

definition Validate :: "AlertBody \<Rightarrow> error option" where
  "Validate x = (if Title x = [] then Some (goerr_New ''title is required'') else None)"

definition float64_timestamp :: "'ctx env \<Rightarrow> float64 \<Rightarrow> Time" where
  \<comment> \<open>the \<^verbatim>\<open>case float64\<close> of the type switch\<close>
  "float64_timestamp E v =
     (let s = int64_of_float64 (int64_out_of_range E) v;
          ns = int64_of_float64 (int64_out_of_range E)
                 (float64_mul (float64_sub v (float64_of_int64 s)) (Finite 1000000000))
      in time_Unix s ns)"

definition resolve_timestamp :: "'ctx env \<Rightarrow> AlertBody \<Rightarrow> error + Time \<times> nat" where
  \<comment> \<open>The first part of \<^verbatim>\<open>NewAlert\<close>, up to the end of the type switch: the error
      returned there, or the value of \<^verbatim>\<open>ts\<close> and the number of calls of \<^verbatim>\<open>time.Now()\<close>
      made so far.\<close>
  "resolve_timestamp E body =
     (case Timestamp body of
        ANil \<Rightarrow> Inr (time_Now E 0, 1)
      | AString v \<Rightarrow>
          (case time_Parse E v of
             Inl err \<Rightarrow>
               Inl (With ''timestamp'' (AString v) (goerr_Wrap err ''fail to parse timestamp''))
           | Inr t \<Rightarrow> Inr (t, 0))
      | AInt v \<Rightarrow> Inr (time_Unix v 0, 0)
      | AFloat64 v \<Rightarrow> Inr (float64_timestamp E v, 0)
      | v \<Rightarrow> Inl (With ''timestamp'' v (goerr_New ''unsupported timestamp type'')))"

definition NewAlert :: "'ctx env \<Rightarrow> 'ctx \<Rightarrow> AlertBody \<Rightarrow> (error + Alert) outcome" where
  "NewAlert E ctx body =
     (case resolve_timestamp E body of
        Inl err \<Rightarrow> Return (Inl err)
      | Inr (ts, k) \<Rightarrow>
          (let jobID = JobIDFromCtx E ctx
           in case NewAlertID E of
                Panic p \<Rightarrow> Panic p
              | Return i \<Rightarrow>
                  (let x = \<lparr>ID = i, Version = AlertSchemaVersion, JobID = jobID,
                            ResolvedTimestamp = ts, Body = body\<rparr>;
                       x' = (if IsZero (ResolvedTimestamp x)
                             then x\<lparr>ResolvedTimestamp := time_Now E k\<rparr> else x)
                   in case Validate body of
                        Some err \<Rightarrow> Return (Inl err)
                      | None \<Rightarrow> Return (Inr x'))))"

definition timestamp_accepted :: "'ctx env \<Rightarrow> any \<Rightarrow> bool" where
  \<comment> \<open>the shapes of \<^verbatim>\<open>AlertBody.Timestamp\<close> on which the type switch does not return\<close>
  "timestamp_accepted E ts =
     (case ts of
        ANil \<Rightarrow> True
      | AString v \<Rightarrow> (case time_Parse E v of Inl _ \<Rightarrow> False | Inr _ \<Rightarrow> True)
      | AInt v \<Rightarrow> True
      | AFloat64 v \<Rightarrow> True
      | _ \<Rightarrow> False)"

subsection \<open>The timestamp of a float, in the specification's words\<close>

text \<open>
  The specification splits a floating-point timestamp into whole seconds \<open>floor v\<close> and
  the remainder \<open>(v - floor v) \<times> 1e9\<close>, converted to nanoseconds. \<open>spec_float64_timestamp\<close>
  follows these words, with the arithmetic and the conversion of \<^verbatim>\<open>float64\<close>; the code
  (\<open>float64_timestamp\<close>) takes \<^verbatim>\<open>int64(v)\<close> for the whole seconds instead.
\<close>

definition spec_float64_timestamp :: "(float64 \<Rightarrow> int64) \<Rightarrow> rat \<Rightarrow> Time" where
  "spec_float64_timestamp oor r =
     (let whole = \<lfloor>r\<rfloor>;
          remainder = float64_sub (Finite r) (round_f64 (of_int whole));
          ns = int64_of_float64 oor (float64_mul remainder (Finite 1000000000))
      in time_Unix (word_of_int whole) ns)"

section \<open>The run command\<close>

text \<open>
  The action of \<^verbatim>\<open>runCommand\<close> is modelled with the trace of the calls it makes to the
  outside: the logger, the file system, the clients of BigQuery and Pub/Sub and the
  use case. What these calls return is read from \<open>run_env\<close>.
\<close>

datatype event =
    LoggerInfo
  | OsReadDir string
  | BigQueryConfigure
  | PubSubConfigure
  | OsOpen string
  | ModelNewTask string
  | SafeClose string
  | UsecaseRunTasks

text \<open>
  The tree under a path: a file, a directory with its entries by name, or a directory
  that \<^verbatim>\<open>os.ReadDir\<close> cannot read.
\<close>

datatype fsnode = File | Dir "(string \<times> fsnode) list" | Unreadable string

definition filepath_Join :: "string \<Rightarrow> string \<Rightarrow> string" where
  \<comment> \<open>\<^verbatim>\<open>filepath.Join\<close> of a clean directory path and an entry name\<close>
  "filepath_Join d n = d @ ''/'' @ n"

fun ext_from :: "string \<Rightarrow> string \<Rightarrow> string" where
  \<comment> \<open>the loop of \<^verbatim>\<open>filepath.Ext\<close>, from the last character backwards\<close>
  "ext_from [] acc = []"
| "ext_from (c # cs) acc =
     (if c = CHR ''/'' then []
      else if c = CHR ''.'' then c # acc
      else ext_from cs (c # acc))"

definition filepath_Ext :: "string \<Rightarrow> string" where
  "filepath_Ext p = ext_from (rev p) []"

fun listQueryFiles :: "string \<Rightarrow> fsnode \<Rightarrow> event list \<times> (error + string list)"
  and listEntries ::
    "string \<Rightarrow> (string \<times> fsnode) list \<Rightarrow> string list \<Rightarrow> event list \<times> (error + string list)"
where
  "listQueryFiles queryDir (Dir entries) =
     (let (evs, r) = listEntries queryDir entries [] in (OsReadDir queryDir # evs, r))"
| "listQueryFiles queryDir (Unreadable err) =
     ([OsReadDir queryDir], Inl (goerr_Wrap err ''Fail to read query directory''))"
| "listQueryFiles queryDir File =
     ([OsReadDir queryDir],
      Inl (goerr_Wrap ''not a directory'' ''Fail to read query directory''))"
| "listEntries queryDir [] files = ([], Inr files)"
| "listEntries queryDir ((name, node) # es) files =
     (case node of
        File \<Rightarrow>
          (if filepath_Ext name = ''.sql''
           then listEntries queryDir es (files @ [filepath_Join queryDir name])
           else listEntries queryDir es files)
      | _ \<Rightarrow>
          (case listQueryFiles (filepath_Join queryDir name) node of
             (evs, Inl err) \<Rightarrow> (evs, Inl err)
           | (evs, Inr subFiles) \<Rightarrow>
               (let (evs', r) = listEntries queryDir es (files @ subFiles)
                in (evs @ evs', r))))"

record Target =
  Tags :: "string list"
  IDs :: "string list"

text \<open>
  \<open>query_tree\<close> is the tree at the query directory. Clients, file descriptors and tasks
  are opaque (strings). \<open>Target_Validate\<close>, \<open>NewTask\<close>, \<open>Tasks_Validate\<close> and
  \<open>RunTasks\<close> are defined outside the files at hand and are parameters.
\<close>

record run_env =
  query_tree :: fsnode
  bq_Configure :: "error + string"
  pubsub_Configure :: "error + string"
  Target_Validate :: "Target \<Rightarrow> error option"
  os_Open :: "string \<Rightarrow> string + string"
  NewTask :: "string \<Rightarrow> error + string"
  Tasks_Validate :: "string list \<Rightarrow> error option"
  RunTasks :: "string \<times> string \<Rightarrow> string list \<Rightarrow> Target \<Rightarrow> error option"

fun load_tasks ::
  "run_env \<Rightarrow> string list \<Rightarrow> string list \<Rightarrow> event list \<times> (error + string list) \<times> string list"
where
  \<comment> \<open>the loop over \<^verbatim>\<open>queryFiles\<close>: the trace, the error or the tasks, and the files
      whose \<^verbatim>\<open>SafeClose\<close> is deferred\<close>
  "load_tasks R [] tasks = ([], Inr tasks, [])"
| "load_tasks R (queryFile # rest) tasks =
     (case os_Open R queryFile of
        Inl err \<Rightarrow>
          ([OsOpen queryFile],
           Inl (With ''file'' (AString queryFile) (goerr_Wrap err ''Fail to open query file'')),
           [])
      | Inr fd \<Rightarrow>
          (case NewTask R fd of
             Inl err \<Rightarrow> ([OsOpen queryFile, ModelNewTask queryFile], Inl err, [queryFile])
           | Inr task \<Rightarrow>
               (let (evs, r, deferred) = load_tasks R rest (tasks @ [task])
                in (OsOpen queryFile # ModelNewTask queryFile # evs, r, queryFile # deferred))))"

definition run_Action ::
  "run_env \<Rightarrow> string \<Rightarrow> string list \<Rightarrow> string list \<Rightarrow> event list \<times> error option"
where
  \<comment> \<open>The \<^verbatim>\<open>Action\<close> of \<^verbatim>\<open>runCommand\<close>, with the values of the flags \<^verbatim>\<open>query-dir\<close>,
      \<^verbatim>\<open>tag\<close> and \<^verbatim>\<open>id\<close>. Deferred calls run at the return, last first.\<close>
  "run_Action R queryDir tags ids =
     (let (evs1, r1) = listQueryFiles queryDir (query_tree R);
          evs = LoggerInfo # evs1
      in case r1 of
           Inl err \<Rightarrow> (evs, Some err)
         | Inr queryFiles \<Rightarrow>
             if length queryFiles = 0
             then (evs, Some (goerr_Wrap ''types.ErrInvalidOption'' ''No query files''))
             else
               (case bq_Configure R of
                  Inl err \<Rightarrow> (evs @ [BigQueryConfigure], Some err)
                | Inr bqClient \<Rightarrow>
                    (case pubsub_Configure R of
                       Inl err \<Rightarrow> (evs @ [BigQueryConfigure, PubSubConfigure], Some err)
                     | Inr pubsubClient \<Rightarrow>
                         (let evs' = evs @ [BigQueryConfigure, PubSubConfigure];
                              target = \<lparr>Tags = tags, IDs = ids\<rparr>
                          in case Target_Validate R target of
                               Some err \<Rightarrow> (evs', Some err)
                             | None \<Rightarrow>
                                 (let clients = (bqClient, pubsubClient);
                                      (evs2, r2, deferred) = load_tasks R queryFiles [];
                                      closes = map SafeClose (rev deferred)
                                  in case r2 of
                                       Inl err \<Rightarrow> (evs' @ evs2 @ closes, Some err)
                                     | Inr tasks \<Rightarrow>
                                         (case Tasks_Validate R tasks of
                                            Some err \<Rightarrow> (evs' @ evs2 @ closes, Some err)
                                          | None \<Rightarrow>
                                              (evs' @ evs2 @ [UsecaseRunTasks] @ closes,
                                               RunTasks R clients tasks target)))))))"

definition is_IO :: "event \<Rightarrow> bool" where
  \<comment> \<open>the calls that read the file system or reach an external client\<close>
  "is_IO e = (e \<noteq> LoggerInfo)"

section \<open>Concrete inputs\<close>

definition example_env :: "unit env" where
  \<comment> \<open>\<^verbatim>\<open>time.Parse\<close> on three strings: an instant of 2024, the first instant of year 1
      (the zero \<^verbatim>\<open>Time\<close>), and a string that is not a time\<close>
  "example_env =
     \<lparr>time_Parse =
        (\<lambda>s. if s = ''2024-01-02T03:04:05Z'' then Inr (time_Unix 1704164645 0)
             else if s = ''0001-01-01T00:00:00Z'' then Inr \<lparr>sec = 0, nsec = 0\<rparr>
             else Inl ''cannot parse as RFC3339''),
      time_Now = (\<lambda>k. if k = 0 then time_Unix 1793556000 0 else time_Unix 1793556001 0),
      uuid_NewV7 = Inr ''0192e4a0-7b3c-7def-8a1b-2c3d4e5f6a7b'',
      JobIDFromCtx = (\<lambda>_. ''job-1''),
      int64_out_of_range = (\<lambda>_. - (2 ^ 63))\<rparr>"

definition failing_uuid_env :: "unit env" where
  "failing_uuid_env = example_env\<lparr>uuid_NewV7 := Inl ''uuid: clock sequence unavailable''\<rparr>"

definition example_body :: "any \<Rightarrow> AlertBody" where
  "example_body ts =
     \<lparr>Title = ''suspicious login'', Description = ''from a new device'',
      Timestamp = ts, Attrs = [''user'' \<mapsto> AString ''alice'']\<rparr>"

definition untitled_body :: "any \<Rightarrow> AlertBody" where
  "untitled_body ts =
     \<lparr>Title = [], Description = ''from a new device'', Timestamp = ts, Attrs = Map.empty\<rparr>"

definition example_alert :: "Time \<Rightarrow> any \<Rightarrow> Alert" where
  "example_alert t ts =
     \<lparr>ID = ''0192e4a0-7b3c-7def-8a1b-2c3d4e5f6a7b'', Version = ''v0'', JobID = ''job-1'',
      ResolvedTimestamp = t, Body = example_body ts\<rparr>"

definition example_run_env :: run_env where
  \<comment> \<open>one query file; \<^verbatim>\<open>Target.Validate\<close> rejects an empty identifier\<close>
  "example_run_env =
     \<lparr>query_tree = Dir [(''login.sql'', File), (''README.md'', File)],
      bq_Configure = Inr ''bigquery client'',
      pubsub_Configure = Inr ''pubsub client'',
      Target_Validate =
        (\<lambda>t. if [] \<in> set (IDs t) then Some (goerr_New ''invalid target'') else None),
      os_Open = (\<lambda>p. Inr p),
      NewTask = (\<lambda>fd. Inr fd),
      Tasks_Validate = (\<lambda>_. None),
      RunTasks = (\<lambda>_ _ _. None)\<rparr>"

section \<open>Properties of the alert model\<close>

subsection \<open>Auxiliary facts\<close>

lemma NewAlert_returns_alert_iff:
  "NewAlert E ctx body = Return (Inr a) \<longleftrightarrow>
     (\<exists>ts k i. resolve_timestamp E body = Inr (ts, k) \<and> uuid_NewV7 E = Inr i \<and>
        Title body \<noteq> [] \<and>
        a = \<lparr>ID = i, Version = AlertSchemaVersion, JobID = JobIDFromCtx E ctx,
              ResolvedTimestamp = (if IsZero ts then time_Now E k else ts), Body = body\<rparr>)"
  by (auto simp: NewAlert_def NewAlertID_def Validate_def Let_def
           split: sum.splits prod.splits outcome.splits if_splits option.splits)

lemma resolve_timestamp_accepted:
  "timestamp_accepted E (Timestamp body) \<Longrightarrow> \<exists>ts k. resolve_timestamp E body = Inr (ts, k)"
  by (auto simp: timestamp_accepted_def resolve_timestamp_def split: any.splits sum.splits)

lemma unixToInternal_eq: "unixToInternal = 62135596800"
  by (simp add: unixToInternal_def)

lemma time_Unix_whole: "time_Unix v 0 = unixTime v 0"
  by (simp add: time_Unix_def word_sle_eq)

lemma IsZero_time_Unix_whole: "IsZero (time_Unix v 0) \<longleftrightarrow> v = - 62135596800"
proof -
  have "v + 62135596800 = 0 \<longleftrightarrow> v = - 62135596800"
    by (metis add.commute add.inverse_inverse add.inverse_unique eq_neg_iff_add_eq_0)
  then show ?thesis
    by (simp add: time_Unix_whole IsZero_def unixTime_def unixToInternal_eq)
qed

lemma example_clock_not_zero: "\<not> IsZero (time_Now example_env k)"
  by (simp add: example_env_def IsZero_time_Unix_whole)

subsection \<open>Empty title\<close>

text \<open>
  C1 (as the code has it). For an \<^verbatim>\<open>AlertBody\<close> with an empty \<^verbatim>\<open>Title\<close>, \<^verbatim>\<open>NewAlert\<close> never
  returns an \<^verbatim>\<open>Alert\<close>. It returns the error "title is required" when the type switch
  accepts the \<^verbatim>\<open>Timestamp\<close> (nil, a string that \<^verbatim>\<open>time.Parse\<close> accepts, an \<^verbatim>\<open>int\<close>, a
  \<^verbatim>\<open>float64\<close>) and the identifier generator succeeds. The timestamp is checked before the
  title, so a rejected \<^verbatim>\<open>Timestamp\<close> is the error reported, whatever the \<^verbatim>\<open>Title\<close>.
\<close>

theorem NewAlert_empty_title:
  assumes "Title body = []"
  shows "(\<forall>a. NewAlert E ctx body \<noteq> Return (Inr a)) \<and>
         (\<forall>i. timestamp_accepted E (Timestamp body) \<longrightarrow> uuid_NewV7 E = Inr i \<longrightarrow>
            NewAlert E ctx body = Return (Inl (goerr_New ''title is required''))) \<and>
         (\<forall>e. resolve_timestamp E body = Inl e \<longrightarrow> NewAlert E ctx body = Return (Inl e))"
proof (intro conjI allI impI)
  fix a show "NewAlert E ctx body \<noteq> Return (Inr a)"
    using assms by (simp add: NewAlert_returns_alert_iff)
next
  fix i assume "timestamp_accepted E (Timestamp body)" and "uuid_NewV7 E = Inr i"
  with assms resolve_timestamp_accepted [of E body]
  show "NewAlert E ctx body = Return (Inl (goerr_New ''title is required''))"
    by (auto simp: NewAlert_def NewAlertID_def Validate_def Let_def)
next
  fix e assume "resolve_timestamp E body = Inl e"
  then show "NewAlert E ctx body = Return (Inl e)"
    by (simp add: NewAlert_def)
qed

theorem NewAlert_empty_title_witness:
  "NewAlert example_env () (untitled_body (AInt 1704165845)) =
     Return (Inl (goerr_New ''title is required'')) \<and>
   NewAlert example_env () (untitled_body (AInt64 1704165845)) =
     Return (Inl (With ''timestamp'' (AInt64 1704165845)
                   (goerr_New ''unsupported timestamp type'')))"
proof -
  have t: "Title (untitled_body ts) = []" for ts
    by (simp add: untitled_body_def)
  have "timestamp_accepted example_env (Timestamp (untitled_body (AInt 1704165845)))"
    by (simp add: timestamp_accepted_def untitled_body_def)
  moreover have "uuid_NewV7 example_env = Inr ''0192e4a0-7b3c-7def-8a1b-2c3d4e5f6a7b''"
    by (simp add: example_env_def)
  moreover have "resolve_timestamp example_env (untitled_body (AInt64 1704165845)) =
      Inl (With ''timestamp'' (AInt64 1704165845) (goerr_New ''unsupported timestamp type''))"
    by (simp add: resolve_timestamp_def untitled_body_def)
  ultimately show ?thesis
    using t
      NewAlert_empty_title [where body = "untitled_body (AInt 1704165845)"
        and E = example_env and ctx = "()"]
      NewAlert_empty_title [where body = "untitled_body (AInt64 1704165845)"
        and E = example_env and ctx = "()"]
    by blast
qed

text \<open>
  The claim as stated (an empty \<^verbatim>\<open>Title\<close> fails with the title error regardless of the
  other fields) is false for a \<^verbatim>\<open>Timestamp\<close> of an unsupported type.
\<close>

theorem NewAlert_empty_title_counterexample:
  "Title (untitled_body (ABool True)) = [] \<and>
   NewAlert example_env () (untitled_body (ABool True)) \<noteq>
     Return (Inl (goerr_New ''title is required''))"
  by (simp add: NewAlert_def resolve_timestamp_def goerr_New_def With_def untitled_body_def)

lemma example_uuid: "uuid_NewV7 example_env = Inr ''0192e4a0-7b3c-7def-8a1b-2c3d4e5f6a7b''"
  by (simp add: example_env_def)

lemma example_title: "Title (example_body ts) \<noteq> []"
  by (simp add: example_body_def)

lemma example_timestamp: "Timestamp (example_body ts) = ts"
  by (simp add: example_body_def)

subsection \<open>The invariant of a returned alert\<close>

text \<open>
  C3. Whenever \<^verbatim>\<open>NewAlert\<close> returns an \<^verbatim>\<open>Alert\<close>, its \<^verbatim>\<open>Title\<close> is not empty and its
  \<^verbatim>\<open>Timestamp\<close> is not the zero \<^verbatim>\<open>Time\<close>: where the type switch has resolved the zero
  \<^verbatim>\<open>Time\<close>, the \<^verbatim>\<open>Alert\<close> carries the reading of the clock instead. The clock itself is
  assumed never to read the zero \<^verbatim>\<open>Time\<close> (January 1 of year 1).
\<close>

theorem NewAlert_invariant:
  assumes "\<forall>k. \<not> IsZero (time_Now E k)" and "NewAlert E ctx body = Return (Inr a)"
  shows "Title (Body a) \<noteq> [] \<and> \<not> IsZero (ResolvedTimestamp a) \<and>
         (\<forall>ts k. resolve_timestamp E body = Inr (ts, k) \<longrightarrow>
            ResolvedTimestamp a = (if IsZero ts then time_Now E k else ts))"
  using assms by (auto simp: NewAlert_returns_alert_iff split: if_splits)

theorem NewAlert_invariant_witness:
  "NewAlert example_env () (example_body (AInt (- 62135596800))) =
     Return (Inr (example_alert (time_Unix 1793556000 0) (AInt (- 62135596800)))) \<and>
   IsZero (time_Unix (- 62135596800) 0) \<and>
   Title (Body (example_alert (time_Unix 1793556000 0) (AInt (- 62135596800)))) \<noteq> [] \<and>
   \<not> IsZero (ResolvedTimestamp (example_alert (time_Unix 1793556000 0) (AInt (- 62135596800))))"
proof -
  have clock: "\<forall>k. \<not> IsZero (time_Now example_env k)"
    by (simp add: example_clock_not_zero)
  have ret: "NewAlert example_env () (example_body (AInt (- 62135596800))) =
      Return (Inr (example_alert (time_Unix 1793556000 0) (AInt (- 62135596800))))"
    by (simp add: NewAlert_returns_alert_iff resolve_timestamp_def example_timestamp
        example_title IsZero_time_Unix_whole example_alert_def AlertSchemaVersion_def)
       (simp add: example_env_def)
  show ?thesis
    using NewAlert_invariant [OF clock ret] ret by (simp add: IsZero_time_Unix_whole)
qed

subsection \<open>A string timestamp\<close>

text \<open>
  C4 (as the code has it). For an \<^verbatim>\<open>AlertBody\<close> whose \<^verbatim>\<open>Timestamp\<close> is a string \<open>s\<close>: if
  \<^verbatim>\<open>time.Parse(time.RFC3339, s)\<close> fails, \<^verbatim>\<open>NewAlert\<close> returns the error "fail to parse
  timestamp" that wraps the parse error and carries \<open>s\<close>; if it succeeds with \<open>t\<close>, the type
  switch resolves exactly \<open>t\<close>, and (with a \<^verbatim>\<open>Title\<close> and a generated identifier) the \<^verbatim>\<open>Alert\<close>
  is returned and its \<^verbatim>\<open>Timestamp\<close> is exactly \<open>t\<close>, unless \<open>t\<close> is the zero \<^verbatim>\<open>Time\<close>, which is
  replaced by the reading of the clock.
\<close>

theorem NewAlert_string_timestamp:
  assumes "Timestamp body = AString s"
  shows "(\<forall>e. time_Parse E s = Inl e \<longrightarrow>
            NewAlert E ctx body =
              Return (Inl (With ''timestamp'' (AString s)
                            (goerr_Wrap e ''fail to parse timestamp'')))) \<and>
         (\<forall>t. time_Parse E s = Inr t \<longrightarrow> resolve_timestamp E body = Inr (t, 0)) \<and>
         (\<forall>t i. time_Parse E s = Inr t \<longrightarrow> Title body \<noteq> [] \<longrightarrow> uuid_NewV7 E = Inr i \<longrightarrow>
            NewAlert E ctx body =
              Return (Inr \<lparr>ID = i, Version = AlertSchemaVersion, JobID = JobIDFromCtx E ctx,
                           ResolvedTimestamp = (if IsZero t then time_Now E 0 else t),
                           Body = body\<rparr>))"
proof (intro conjI allI impI)
  fix e assume "time_Parse E s = Inl e"
  with assms show "NewAlert E ctx body =
      Return (Inl (With ''timestamp'' (AString s) (goerr_Wrap e ''fail to parse timestamp'')))"
    by (simp add: NewAlert_def resolve_timestamp_def)
next
  fix t assume "time_Parse E s = Inr t"
  with assms show "resolve_timestamp E body = Inr (t, 0)"
    by (simp add: resolve_timestamp_def)
next
  fix t i assume "time_Parse E s = Inr t" "Title body \<noteq> []" "uuid_NewV7 E = Inr i"
  with assms show "NewAlert E ctx body =
      Return (Inr \<lparr>ID = i, Version = AlertSchemaVersion, JobID = JobIDFromCtx E ctx,
                   ResolvedTimestamp = (if IsZero t then time_Now E 0 else t), Body = body\<rparr>)"
    by (simp add: NewAlert_returns_alert_iff resolve_timestamp_def)
qed

theorem NewAlert_string_timestamp_witness:
  "NewAlert example_env () (example_body (AString ''2024-01-02T03:04:05Z'')) =
     Return (Inr (example_alert (time_Unix 1704164645 0) (AString ''2024-01-02T03:04:05Z''))) \<and>
   NewAlert example_env () (example_body (AString ''not-a-time'')) =
     Return (Inl (With ''timestamp'' (AString ''not-a-time'')
                   (goerr_Wrap ''cannot parse as RFC3339'' ''fail to parse timestamp'')))"
proof -
  have ok: "time_Parse example_env ''2024-01-02T03:04:05Z'' = Inr (time_Unix 1704164645 0)"
    and bad: "time_Parse example_env ''not-a-time'' = Inl ''cannot parse as RFC3339''"
    by (simp_all add: example_env_def)
  have nz: "\<not> IsZero (time_Unix 1704164645 0)"
    by (simp add: IsZero_time_Unix_whole)
  have job: "JobIDFromCtx example_env () = ''job-1''"
    by (simp add: example_env_def)
  show ?thesis
    using ok bad nz job example_uuid
      NewAlert_string_timestamp [where body = "example_body (AString ''2024-01-02T03:04:05Z'')"
        and s = "''2024-01-02T03:04:05Z''" and E = example_env and ctx = "()"]
      NewAlert_string_timestamp [where body = "example_body (AString ''not-a-time'')"
        and s = "''not-a-time''" and E = example_env and ctx = "()"]
    by (simp add: example_timestamp example_title example_alert_def AlertSchemaVersion_def)
qed

text \<open>
  The claim as stated (whenever parsing succeeds, the \<^verbatim>\<open>Timestamp\<close> of the \<^verbatim>\<open>Alert\<close> is exactly
  the parsed instant) is false for the string that \<^verbatim>\<open>time.Parse\<close> reads as the zero \<^verbatim>\<open>Time\<close>.
\<close>

theorem NewAlert_string_timestamp_counterexample:
  "time_Parse example_env ''0001-01-01T00:00:00Z'' = Inr \<lparr>sec = 0, nsec = 0\<rparr> \<and>
   NewAlert example_env () (example_body (AString ''0001-01-01T00:00:00Z'')) =
     Return (Inr (example_alert (time_Unix 1793556000 0) (AString ''0001-01-01T00:00:00Z''))) \<and>
   ResolvedTimestamp (example_alert (time_Unix 1793556000 0) (AString ''0001-01-01T00:00:00Z''))
     \<noteq> \<lparr>sec = 0, nsec = 0\<rparr>"
proof -
  have p: "time_Parse example_env ''0001-01-01T00:00:00Z'' = Inr \<lparr>sec = 0, nsec = 0\<rparr>"
    by (simp add: example_env_def)
  have "NewAlert example_env () (example_body (AString ''0001-01-01T00:00:00Z'')) =
     Return (Inr (example_alert (time_Unix 1793556000 0) (AString ''0001-01-01T00:00:00Z'')))"
    by (simp add: NewAlert_returns_alert_iff resolve_timestamp_def example_timestamp p
        example_title example_alert_def AlertSchemaVersion_def IsZero_def)
       (simp add: example_env_def)
  moreover have "time_Unix 1793556000 0 \<noteq> \<lparr>sec = 0, nsec = 0\<rparr>"
    by (simp add: time_Unix_whole unixTime_def unixToInternal_eq)
  ultimately show ?thesis
    using p by (simp add: example_alert_def)
qed

subsection \<open>An integer timestamp\<close>

text \<open>
  C5 (as the code has it). For an \<^verbatim>\<open>AlertBody\<close> whose \<^verbatim>\<open>Timestamp\<close> holds a Go \<^verbatim>\<open>int\<close> \<open>v\<close>
  (with a \<^verbatim>\<open>Title\<close> and a generated identifier), \<^verbatim>\<open>NewAlert\<close> returns the \<^verbatim>\<open>Alert\<close> whose
  \<^verbatim>\<open>Timestamp\<close> is \<^verbatim>\<open>time.Unix(v, 0)\<close>, unless that is the zero \<^verbatim>\<open>Time\<close> (\<open>v = -62135596800\<close>),
  which is replaced by the reading of the clock. The type switch has no case for the other
  integer types: an \<^verbatim>\<open>int64\<close>, \<^verbatim>\<open>int32\<close> or \<^verbatim>\<open>uint64\<close> is an unsupported timestamp type.
\<close>

theorem NewAlert_int_timestamp:
  assumes "Title body \<noteq> []" and "uuid_NewV7 E = Inr i"
  shows "(\<forall>v. Timestamp body = AInt v \<longrightarrow>
            NewAlert E ctx body =
              Return (Inr \<lparr>ID = i, Version = AlertSchemaVersion, JobID = JobIDFromCtx E ctx,
                           ResolvedTimestamp =
                             (if v = - 62135596800 then time_Now E 0 else time_Unix v 0),
                           Body = body\<rparr>)) \<and>
         (Timestamp body \<in> range AInt64 \<union> range AInt32 \<union> range AUint64 \<longrightarrow>
            NewAlert E ctx body =
              Return (Inl (With ''timestamp'' (Timestamp body)
                            (goerr_New ''unsupported timestamp type''))))"
proof (intro conjI allI impI)
  fix v assume "Timestamp body = AInt v"
  with assms show "NewAlert E ctx body =
      Return (Inr \<lparr>ID = i, Version = AlertSchemaVersion, JobID = JobIDFromCtx E ctx,
                   ResolvedTimestamp = (if v = - 62135596800 then time_Now E 0 else time_Unix v 0),
                   Body = body\<rparr>)"
    by (simp add: NewAlert_returns_alert_iff resolve_timestamp_def IsZero_time_Unix_whole)
next
  assume "Timestamp body \<in> range AInt64 \<union> range AInt32 \<union> range AUint64"
  then show "NewAlert E ctx body =
      Return (Inl (With ''timestamp'' (Timestamp body) (goerr_New ''unsupported timestamp type'')))"
    by (auto simp: NewAlert_def resolve_timestamp_def)
qed

theorem NewAlert_int_timestamp_witness:
  "NewAlert example_env () (example_body (AInt 1704165845)) =
     Return (Inr (example_alert (time_Unix 1704165845 0) (AInt 1704165845))) \<and>
   NewAlert example_env () (example_body (AInt32 1704165845)) =
     Return (Inl (With ''timestamp'' (AInt32 1704165845)
                   (goerr_New ''unsupported timestamp type'')))"
proof -
  have job: "JobIDFromCtx example_env () = ''job-1''"
    by (simp add: example_env_def)
  show ?thesis
    using job
      NewAlert_int_timestamp [OF example_title [of "AInt 1704165845"] example_uuid, of "()"]
      NewAlert_int_timestamp [OF example_title [of "AInt32 1704165845"] example_uuid, of "()"]
    by (simp add: example_timestamp example_alert_def AlertSchemaVersion_def)
qed

text \<open>
  The claim as stated (an integer of any shape is read as whole Unix seconds) is false for
  an \<^verbatim>\<open>int64\<close>: no \<^verbatim>\<open>Alert\<close> is returned.
\<close>

theorem NewAlert_int_timestamp_counterexample:
  "NewAlert example_env () (example_body (AInt64 1704165845)) =
     Return (Inl (With ''timestamp'' (AInt64 1704165845)
                   (goerr_New ''unsupported timestamp type'')))"
  by (simp add: NewAlert_def resolve_timestamp_def example_timestamp)

subsection \<open>Any other timestamp\<close>

text \<open>
  C7. For an \<^verbatim>\<open>AlertBody\<close> whose \<^verbatim>\<open>Timestamp\<close> is not nil, not a string, not an \<^verbatim>\<open>int\<close> and not
  a \<^verbatim>\<open>float64\<close>, \<^verbatim>\<open>NewAlert\<close> returns the error "unsupported timestamp type" carrying the
  value, and no \<^verbatim>\<open>Alert\<close>.
\<close>

theorem NewAlert_unsupported_timestamp:
  assumes "Timestamp body \<noteq> ANil" and "Timestamp body \<notin> range AString"
    and "Timestamp body \<notin> range AInt" and "Timestamp body \<notin> range AFloat64"
  shows "NewAlert E ctx body =
           Return (Inl (With ''timestamp'' (Timestamp body)
                         (goerr_New ''unsupported timestamp type'')))"
  using assms by (cases "Timestamp body") (simp_all add: NewAlert_def resolve_timestamp_def)

theorem NewAlert_unsupported_timestamp_witness:
  "NewAlert example_env () (example_body (ABool True)) =
     Return (Inl (With ''timestamp'' (ABool True) (goerr_New ''unsupported timestamp type'')))"
proof -
  have "Timestamp (example_body (ABool True)) \<noteq> ANil"
    and "Timestamp (example_body (ABool True)) \<notin> range AString"
    and "Timestamp (example_body (ABool True)) \<notin> range AInt"
    and "Timestamp (example_body (ABool True)) \<notin> range AFloat64"
    by (auto simp: example_timestamp)
  from NewAlert_unsupported_timestamp [OF this, of example_env "()"]
  show ?thesis by (simp add: example_timestamp)
qed

subsection \<open>No timestamp\<close>

text \<open>
  C8. For an \<^verbatim>\<open>AlertBody\<close> whose \<^verbatim>\<open>Timestamp\<close> is nil (with a \<^verbatim>\<open>Title\<close> and a generated
  identifier), \<^verbatim>\<open>NewAlert\<close> returns the \<^verbatim>\<open>Alert\<close> whose \<^verbatim>\<open>Timestamp\<close> is a reading of the clock
  taken during the call: the first one, or the second one if the first was the zero \<^verbatim>\<open>Time\<close>.
\<close>

theorem NewAlert_nil_timestamp:
  assumes "Timestamp body = ANil" and "Title body \<noteq> []" and "uuid_NewV7 E = Inr i"
  shows "NewAlert E ctx body =
           Return (Inr \<lparr>ID = i, Version = AlertSchemaVersion, JobID = JobIDFromCtx E ctx,
                        ResolvedTimestamp = time_Now E (if IsZero (time_Now E 0) then 1 else 0),
                        Body = body\<rparr>)"
  using assms by (simp add: NewAlert_returns_alert_iff resolve_timestamp_def)

theorem NewAlert_nil_timestamp_witness:
  "NewAlert example_env () (example_body ANil) =
     Return (Inr (example_alert (time_Now example_env 0) ANil))"
proof -
  have job: "JobIDFromCtx example_env () = ''job-1''"
    by (simp add: example_env_def)
  show ?thesis
    using job NewAlert_nil_timestamp [OF example_timestamp example_title example_uuid, of "()"]
    by (simp add: example_clock_not_zero example_alert_def AlertSchemaVersion_def)
qed

subsection \<open>Failure of the identifier generator\<close>

text \<open>
  C9. When \<^verbatim>\<open>uuid.NewV7\<close> fails, \<^verbatim>\<open>NewAlertID\<close> panics with its error, and so does every
  call of \<^verbatim>\<open>NewAlert\<close> that reaches it: \<^verbatim>\<open>NewAlert\<close> then returns neither an \<^verbatim>\<open>Alert\<close> nor an
  error. The only calls that still return are those that have left at the type switch,
  with the timestamp error, before the generator is called.
\<close>

theorem NewAlertID_failure_panics:
  assumes "uuid_NewV7 E = Inl err"
  shows "NewAlertID E = Panic err \<and>
         (\<forall>a. NewAlert E ctx body \<noteq> Return (Inr a)) \<and>
         (timestamp_accepted E (Timestamp body) \<longrightarrow> NewAlert E ctx body = Panic err) \<and>
         (\<not> timestamp_accepted E (Timestamp body) \<longrightarrow>
            (\<exists>e. resolve_timestamp E body = Inl e \<and> NewAlert E ctx body = Return (Inl e)))"
  using assms
  by (auto simp: NewAlert_returns_alert_iff NewAlertID_def NewAlert_def timestamp_accepted_def
        resolve_timestamp_def split: any.splits sum.splits)

theorem NewAlertID_failure_panics_witness:
  "NewAlertID failing_uuid_env = Panic ''uuid: clock sequence unavailable'' \<and>
   NewAlert failing_uuid_env () (example_body ANil) = Panic ''uuid: clock sequence unavailable'' \<and>
   NewAlert failing_uuid_env () (untitled_body (AFloat64 (Finite 1704165845))) =
     Panic ''uuid: clock sequence unavailable''"
proof -
  have u: "uuid_NewV7 failing_uuid_env = Inl ''uuid: clock sequence unavailable''"
    by (simp add: failing_uuid_env_def)
  have "timestamp_accepted failing_uuid_env (Timestamp (example_body ANil))"
    and "timestamp_accepted failing_uuid_env
           (Timestamp (untitled_body (AFloat64 (Finite 1704165845))))"
    by (simp_all add: timestamp_accepted_def example_timestamp untitled_body_def)
  then show ?thesis
    using NewAlertID_failure_panics [OF u, of "()" "example_body ANil"]
      NewAlertID_failure_panics [OF u, of "()" "untitled_body (AFloat64 (Finite 1704165845))"]
    by simp
qed

subsection \<open>The body is embedded unchanged\<close>

text \<open>
  C10. The \<^verbatim>\<open>Alert\<close> that \<^verbatim>\<open>NewAlert\<close> returns embeds the \<^verbatim>\<open>AlertBody\<close> it was given,
  unchanged: \<^verbatim>\<open>Title\<close>, \<^verbatim>\<open>Description\<close>, \<^verbatim>\<open>Attrs\<close> and the polymorphic \<^verbatim>\<open>Timestamp\<close>. The
  resolved time is in the \<^verbatim>\<open>Timestamp\<close> of the \<^verbatim>\<open>Alert\<close> itself.
\<close>

theorem NewAlert_embeds_body:
  assumes "NewAlert E ctx body = Return (Inr a)"
  shows "Body a = body \<and> Title (Body a) = Title body \<and>
         Description (Body a) = Description body \<and> Attrs (Body a) = Attrs body \<and>
         Timestamp (Body a) = Timestamp body"
  using assms by (auto simp: NewAlert_returns_alert_iff)

theorem NewAlert_embeds_body_witness:
  "NewAlert example_env () (example_body (AInt 1704165845)) =
     Return (Inr (example_alert (time_Unix 1704165845 0) (AInt 1704165845))) \<and>
   Timestamp (Body (example_alert (time_Unix 1704165845 0) (AInt 1704165845))) =
     AInt 1704165845 \<and>
   ResolvedTimestamp (example_alert (time_Unix 1704165845 0) (AInt 1704165845)) =
     time_Unix 1704165845 0"
proof -
  have ret: "NewAlert example_env () (example_body (AInt 1704165845)) =
      Return (Inr (example_alert (time_Unix 1704165845 0) (AInt 1704165845)))"
    by (simp add: NewAlert_returns_alert_iff resolve_timestamp_def example_timestamp
        example_title IsZero_time_Unix_whole example_alert_def AlertSchemaVersion_def)
       (simp add: example_env_def)
  show ?thesis
    using NewAlert_embeds_body [OF ret] ret by (simp add: example_alert_def example_timestamp)
qed

section \<open>Properties of the run command\<close>

lemma listing_reads_directories:
  "set (fst (listQueryFiles queryDir node)) \<subseteq> range OsReadDir"
  "set (fst (listEntries queryDir es files)) \<subseteq> range OsReadDir"
proof (induction queryDir node and queryDir es files rule: listQueryFiles_listEntries.induct)
  case (1 queryDir entries)
  then show ?case by (auto split: prod.splits)
next
  case (2 queryDir err)
  then show ?case by simp
next
  case (3 queryDir)
  then show ?case by simp
next
  case (4 queryDir files)
  then show ?case by simp
next
  case (5 queryDir name node es files)
  show ?case
  proof (cases node)
    case File
    with 5 show ?thesis by (auto split: if_splits)
  next
    case (Dir x2)
    with 5 show ?thesis
      by (auto split: prod.splits sum.splits) force
  next
    case (Unreadable x3)
    with 5 show ?thesis
      by (auto split: prod.splits sum.splits)
  qed
qed

lemma listing_event:
  assumes "listQueryFiles queryDir node = (evs, r)" and "e \<in> set evs"
  shows "e \<in> range OsReadDir"
  using listing_reads_directories(1) [of queryDir node] assms by auto

text \<open>
  C6 (as the code has it). The action lists the query directory and configures the
  BigQuery and Pub/Sub clients before it validates the target. When \<^verbatim>\<open>Target.Validate\<close>
  rejects the target, the action returns that error (if it got that far) and no query
  file has been opened or parsed and \<^verbatim>\<open>RunTasks\<close> has not been called; the calls made are
  the log line, the \<^verbatim>\<open>os.ReadDir\<close> calls of the listing and the two \<^verbatim>\<open>Configure\<close> calls.
\<close>

theorem run_Action_invalid_target:
  assumes "Target_Validate R \<lparr>Tags = tags, IDs = ids\<rparr> = Some err"
  shows "(\<forall>p. OsOpen p \<notin> set (fst (run_Action R queryDir tags ids)) \<and>
              ModelNewTask p \<notin> set (fst (run_Action R queryDir tags ids)) \<and>
              SafeClose p \<notin> set (fst (run_Action R queryDir tags ids))) \<and>
         UsecaseRunTasks \<notin> set (fst (run_Action R queryDir tags ids)) \<and>
         (\<forall>evs files bq ps.
            listQueryFiles queryDir (query_tree R) = (evs, Inr files) \<longrightarrow> files \<noteq> [] \<longrightarrow>
            bq_Configure R = Inr bq \<longrightarrow> pubsub_Configure R = Inr ps \<longrightarrow>
            run_Action R queryDir tags ids =
              (LoggerInfo # evs @ [BigQueryConfigure, PubSubConfigure], Some err))"
proof -
  obtain evs r where l: "listQueryFiles queryDir (query_tree R) = (evs, r)"
    by (cases "listQueryFiles queryDir (query_tree R)")
  have evs: "e \<in> set evs \<Longrightarrow> e \<in> range OsReadDir" for e
    using listing_event [OF l] by simp
  have "set (fst (run_Action R queryDir tags ids)) \<subseteq>
          {LoggerInfo, BigQueryConfigure, PubSubConfigure} \<union> range OsReadDir"
    using assms evs
    by (auto simp: run_Action_def l Let_def split: sum.splits)
  moreover have "\<forall>evs files bq ps.
            listQueryFiles queryDir (query_tree R) = (evs, Inr files) \<longrightarrow> files \<noteq> [] \<longrightarrow>
            bq_Configure R = Inr bq \<longrightarrow> pubsub_Configure R = Inr ps \<longrightarrow>
            run_Action R queryDir tags ids =
              (LoggerInfo # evs @ [BigQueryConfigure, PubSubConfigure], Some err)"
    using assms by (simp add: run_Action_def Let_def)
  ultimately show ?thesis by auto
qed

lemma example_listing:
  "listQueryFiles ''queries'' (query_tree example_run_env) =
     ([OsReadDir ''queries''], Inr [''queries/login.sql''])"
  by (simp add: example_run_env_def filepath_Ext_def filepath_Join_def)

theorem run_Action_invalid_target_witness:
  "run_Action example_run_env ''queries'' [''aws''] [[]] =
     ([LoggerInfo, OsReadDir ''queries'', BigQueryConfigure, PubSubConfigure],
      Some (goerr_New ''invalid target'')) \<and>
   OsOpen ''queries/login.sql'' \<notin> set (fst (run_Action example_run_env ''queries'' [''aws''] [[]]))"
proof -
  have v: "Target_Validate example_run_env \<lparr>Tags = [''aws''], IDs = [[]]\<rparr> =
      Some (goerr_New ''invalid target'')"
    by (simp add: example_run_env_def)
  have "bq_Configure example_run_env = Inr ''bigquery client''"
    and "pubsub_Configure example_run_env = Inr ''pubsub client''"
    by (simp_all add: example_run_env_def)
  then show ?thesis
    using run_Action_invalid_target [OF v, of "''queries''"] example_listing by simp
qed

text \<open>
  The claim as stated (a run that fails on the validation of its target has attempted no
  input or output) is false: the directory has been read and both clients configured.
\<close>

theorem run_Action_invalid_target_counterexample:
  "snd (run_Action example_run_env ''queries'' [''aws''] [[]]) =
     Target_Validate example_run_env \<lparr>Tags = [''aws''], IDs = [[]]\<rparr> \<and>
   Target_Validate example_run_env \<lparr>Tags = [''aws''], IDs = [[]]\<rparr> =
     Some (goerr_New ''invalid target'') \<and>
   fst (run_Action example_run_env ''queries'' [''aws''] [[]]) =
     [LoggerInfo, OsReadDir ''queries'', BigQueryConfigure, PubSubConfigure] \<and>
   is_IO (OsReadDir ''queries'') \<and> is_IO BigQueryConfigure \<and> is_IO PubSubConfigure"
  by (simp add: run_Action_def example_listing is_IO_def) (simp add: example_run_env_def)

text \<open>With a target that is accepted, the same run goes on to open the query file.\<close>

lemma run_Action_example:
  "run_Action example_run_env ''queries'' [''aws''] [] =
     ([LoggerInfo, OsReadDir ''queries'', BigQueryConfigure, PubSubConfigure,
       OsOpen ''queries/login.sql'', ModelNewTask ''queries/login.sql'', UsecaseRunTasks,
       SafeClose ''queries/login.sql''], None)"
  by (simp add: run_Action_def example_listing) (simp add: example_run_env_def)

section \<open>Properties of the float64 model\<close>

text \<open>
  \<open>floor_log2\<close> is the binary exponent, and rounding leaves every number \<open>m \<times> 2^k\<close> with
  \<open>|m| < 2^53\<close> and \<open>-1074 \<le> k \<le> 971\<close> (the binary64 numbers) as it is.
\<close>

lemma bitlen_bounds:
  "0 < n \<Longrightarrow> \<exists>b::nat. bitlen n = int b + 1 \<and> 2 ^ b \<le> n \<and> n < 2 ^ (b + 1)"
proof (induction n rule: bitlen.induct)
  case (1 n)
  show ?case
  proof (cases "n div 2 \<le> 0")
    case True
    with 1(2) have n: "n = 1" by linarith
    have "bitlen 1 = 1" by (simp add: bitlen.simps)
    with n show ?thesis by (intro exI [of _ 0]) simp
  next
    case False
    with 1 obtain b :: nat where b: "bitlen (n div 2) = int b + 1"
      "2 ^ b \<le> n div 2" "n div 2 < 2 ^ (b + 1)"
      by auto
    have "bitlen n = int (b + 1) + 1"
      using 1(2) b(1) by (subst bitlen.simps) simp
    moreover have "2 ^ (b + 1) \<le> n" using b(2) by simp
    moreover have "n < 2 ^ (b + 1 + 1)" using b(3) by simp
    ultimately show ?thesis by blast
  qed
qed

lemma floor_log2_bounds:
  assumes "0 < r"
  shows "2 powi (floor_log2 r) \<le> r \<and> r < 2 powi (floor_log2 r + 1)"
proof -
  obtain p q where pq: "quotient_of r = (p, q)" by (cases "quotient_of r")
  then have q: "0 < q" and r: "r = of_int p / of_int q"
    using quotient_of_denom_pos quotient_of_div by blast+
  with assms have p: "0 < p"
    by (simp add: zero_less_divide_iff)
  obtain bp :: nat where bp: "bitlen p = int bp + 1" "2 ^ bp \<le> p" "p < 2 ^ (bp + 1)"
    using bitlen_bounds [OF p] by blast
  obtain bq :: nat where bq: "bitlen q = int bq + 1" "2 ^ bq \<le> q" "q < 2 ^ (bq + 1)"
    using bitlen_bounds [OF q] by blast
  define n where "n = int bp - int bq"
  have fl: "floor_log2 r = (if 2 powi n \<le> r then n else n - 1)"
    by (simp add: floor_log2_def pq bp(1) bq(1) n_def Let_def)
  have P: "(2::rat) ^ bp \<le> of_int p" "(of_int p :: rat) < 2 ^ (bp + 1)"
    using bp(2,3) by (metis of_int_le_iff of_int_numeral of_int_power, metis of_int_less_iff of_int_numeral of_int_power)
  have Q: "(2::rat) ^ bq \<le> of_int q" "(of_int q :: rat) < 2 ^ (bq + 1)"
    using bq(2,3) by (metis of_int_le_iff of_int_numeral of_int_power, metis of_int_less_iff of_int_numeral of_int_power)
  have qpos: "(0::rat) < of_int q" using q by simp
  have low: "2 powi (n - 1) \<le> r"
  proof -
    have "(2::rat) powi (n - 1) = 2 ^ bp / 2 ^ (bq + 1)"
      unfolding n_def by (simp add: power_int_diff power_int_add field_simps flip: power_int_of_nat)
    also have "\<dots> \<le> of_int p / 2 ^ (bq + 1)"
      using P(1) by (simp add: divide_right_mono)
    also have "\<dots> \<le> of_int p / of_int q"
      using Q(2) qpos p by (intro divide_left_mono) (auto simp: less_imp_le)
    finally show ?thesis by (simp add: r)
  qed
  have high: "r < 2 powi (n + 1)"
  proof -
    have "of_int p / of_int q < (2::rat) ^ (bp + 1) / of_int q"
      using P(2) qpos by (simp add: divide_strict_right_mono)
    also have "\<dots> \<le> 2 ^ (bp + 1) / 2 ^ bq"
      using Q(1) qpos by (intro divide_left_mono) auto
    also have "\<dots> = 2 powi (n + 1)"
      unfolding n_def by (simp add: power_int_diff power_int_add field_simps flip: power_int_of_nat)
    finally show ?thesis by (simp add: r)
  qed
  show ?thesis
  proof (cases "2 powi n \<le> r")
    case True
    with fl high show ?thesis by simp
  next
    case False
    with fl low show ?thesis by simp
  qed
qed

lemma round_half_even_of_int: "round_half_even (of_int j) = j"
  by (simp add: round_half_even_def)

lemma round_f64_exact:
  assumes r: "r = of_int m * 2 powi k"
    and m: "\<bar>m\<bar> < 2 ^ 53" and k: "- 1074 \<le> k" "k \<le> 971"
  shows "round_f64 r = Finite r"
proof (cases "r = 0")
  case True
  then show ?thesis by (simp add: round_f64_def)
next
  case False
  define e where "e = max (floor_log2 \<bar>r\<bar>) (- 1022)"
  define q :: rat where "q = 2 powi (e - 52)"
  have rpos: "0 < \<bar>r\<bar>" using False by simp
  have absr: "\<bar>r\<bar> = of_int \<bar>m\<bar> * 2 powi k"
    by (simp add: r abs_mult)
  have "of_int \<bar>m\<bar> < (2::rat) ^ 53"
    using m by (metis of_int_less_iff of_int_numeral of_int_power)
  then have "\<bar>r\<bar> < 2 ^ 53 * 2 powi k"
    unfolding absr by (intro mult_strict_right_mono) simp_all
  also have "\<dots> = 2 powi (53 + k)"
    by (simp add: power_int_add)
  finally have upper: "\<bar>r\<bar> < 2 powi (53 + k)" .
  have "(2::rat) powi (floor_log2 \<bar>r\<bar>) < 2 powi (53 + k)"
    using floor_log2_bounds [OF rpos] upper by simp
  then have "floor_log2 \<bar>r\<bar> < 53 + k"
    by (metis linorder_not_le one_le_numeral power_int_increasing)
  then have ek: "0 \<le> k - e + 52"
    using k(1) by (simp add: e_def)
  define j where "j = m * 2 ^ nat (k - e + 52)"
  have "r / q = of_int m * (2 powi k / 2 powi (e - 52))"
    by (simp add: r q_def)
  also have "2 powi k / 2 powi (e - 52) = (2::rat) powi (k - e + 52)"
    by (simp add: power_int_diff power_int_add field_simps)
  also have "\<dots> = 2 ^ nat (k - e + 52)"
    using ek by (simp add: power_int_nonneg_exp)
  finally have rq: "r / q = of_int j"
    by (simp add: j_def)
  have qn: "q \<noteq> 0" by (simp add: q_def)
  have "of_int (round_half_even (r / q)) * q = r / q * q"
    by (simp only: rq round_half_even_of_int)
  then have y: "of_int (round_half_even (r / q)) * q = r"
    using qn by simp
  have "(2::rat) powi (53 + k) \<le> 2 powi 1024"
    using k(2) by (intro power_int_increasing) simp_all
  with upper have "\<not> 2 powi 1024 \<le> \<bar>r\<bar>" by simp
  then show ?thesis
    using False y by (simp add: round_f64_def Let_def flip: e_def q_def)
qed

lemma rat_trunc_nonneg: "0 \<le> r \<Longrightarrow> rat_trunc r = \<lfloor>r\<rfloor>"
  by (simp add: rat_trunc_def)

lemma rat_trunc_neg: "r < 0 \<Longrightarrow> rat_trunc r = \<lceil>r\<rceil>"
  by (simp add: rat_trunc_def)

lemma int64_of_float64_in_range:
  "- (2 ^ 63) \<le> rat_trunc r \<Longrightarrow> rat_trunc r < 2 ^ 63 \<Longrightarrow>
     int64_of_float64 oor (Finite r) = word_of_int (rat_trunc r)"
  by (simp add: int64_of_float64_def Let_def)

lemma sint_int64_of_int:
  "- (2 ^ 63) \<le> k \<Longrightarrow> k < 2 ^ 63 \<Longrightarrow> sint (word_of_int k :: int64) = k"
  by (simp add: sint_sbintrunc' signed_take_bit_int_eq_self)

lemma float64_of_int64_of_int:
  "- (2 ^ 63) \<le> k \<Longrightarrow> k < 2 ^ 63 \<Longrightarrow> float64_of_int64 (word_of_int k) = round_f64 (of_int k)"
  by (simp add: float64_of_int64_def sint_int64_of_int)

lemma float64_timestamp_in_range:
  assumes "- (2 ^ 63) \<le> rat_trunc r" and "rat_trunc r < 2 ^ 63"
  shows "float64_timestamp E (Finite r) =
           time_Unix (word_of_int (rat_trunc r))
             (int64_of_float64 (int64_out_of_range E)
                (float64_mul (float64_sub (Finite r) (round_f64 (of_int (rat_trunc r))))
                   (Finite 1000000000)))"
  using assms
  by (simp add: float64_timestamp_def Let_def int64_of_float64_in_range float64_of_int64_of_int)

lemma float64_timestamp_nonneg:
  assumes "0 \<le> r" and "r < 2 ^ 63"
  shows "float64_timestamp E (Finite r) = spec_float64_timestamp (int64_out_of_range E) r"
proof -
  have t: "rat_trunc r = \<lfloor>r\<rfloor>" using assms(1) by (rule rat_trunc_nonneg)
  have "0 \<le> \<lfloor>r\<rfloor>" using assms(1) by simp
  moreover have "\<lfloor>r\<rfloor> < 2 ^ 63" using assms(2) by (simp add: floor_less_iff)
  ultimately show ?thesis
    using float64_timestamp_in_range [of r E]
    by (simp add: t spec_float64_timestamp_def Let_def)
qed

lemma sint_int64_bounds: "- 9223372036854775808 \<le> sint (w :: int64)" "sint (w :: int64) < 9223372036854775808"
  using sint_ge [of w] sint_lt [of w] by simp_all

lemma quo_bounds:
  fixes k :: int
  assumes "- 9223372036854775808 \<le> k" and "k < 9223372036854775808"
  shows "- 9223372036 \<le> k sdiv 1000000000 \<and> k sdiv 1000000000 \<le> 9223372036"
proof -
  have "\<bar>k\<bar> div 1000000000 \<le> 9223372036854775808 div 1000000000"
    using assms by (intro zdiv_mono1) auto
  then have b: "\<bar>k\<bar> div 1000000000 \<le> 9223372036" by simp
  have nn: "0 \<le> \<bar>k\<bar> div 1000000000" by (simp add: pos_imp_zdiv_nonneg_iff)
  show ?thesis
    using b nn by (cases "k < 0"; cases "k = 0") (simp_all add: signed_divide_int_def)
qed

lemma int64_sum_not_zero:
  assumes "0 \<le> sint (s :: int64)" and "- 9223372037 \<le> d" and "d \<le> 9223372036"
  shows "s + word_of_int d + 62135596800 \<noteq> 0"
proof -
  have "s + word_of_int d + 62135596800 = word_of_int (sint s + d + 62135596800)"
    by simp
  moreover have "\<not> (2 :: int) ^ 64 dvd sint s + d + 62135596800"
    using assms sint_int64_bounds(2) [of s] by (intro zdvd_not_zless) simp_all
  ultimately show ?thesis
    by (simp only: word_of_int_eq_0_iff) simp
qed

lemma time_Unix_nonneg_not_zero:
  assumes "0 \<le> sint s"
  shows "\<not> IsZero (time_Unix s ns)"
proof -
  define q where "q = sint ns sdiv 1000000000"
  have q: "- 9223372036 \<le> q" "q \<le> 9223372036"
    using quo_bounds [OF sint_int64_bounds, of ns] by (simp_all add: q_def)
  have "sec (time_Unix s ns) = s + word_of_int 0 + 62135596800 \<or>
        sec (time_Unix s ns) = s + word_of_int q + 62135596800 \<or>
        sec (time_Unix s ns) = s + word_of_int (q - 1) + 62135596800"
    by (simp add: time_Unix_def unixTime_def unixToInternal_eq int64_quo_def Let_def q_def)
  then have "sec (time_Unix s ns) \<noteq> 0"
    using int64_sum_not_zero [OF assms, of 0] int64_sum_not_zero [OF assms, of q]
      int64_sum_not_zero [OF assms, of "q - 1"] q
    by auto
  then show ?thesis by (simp add: IsZero_def)
qed

lemma example_job: "JobIDFromCtx example_env () = ''job-1''"
  by (simp add: example_env_def)

lemma NewAlert_float64:
  assumes "Timestamp body = AFloat64 v" and "Title body \<noteq> []" and "uuid_NewV7 E = Inr i"
  shows "NewAlert E ctx body =
           Return (Inr \<lparr>ID = i, Version = AlertSchemaVersion, JobID = JobIDFromCtx E ctx,
                        ResolvedTimestamp =
                          (if IsZero (float64_timestamp E v) then time_Now E 0
                           else float64_timestamp E v),
                        Body = body\<rparr>)"
  using assms by (simp add: NewAlert_returns_alert_iff resolve_timestamp_def)

subsection \<open>A floating-point timestamp\<close>

text \<open>
  C2 (as the code has it). Let the \<^verbatim>\<open>Timestamp\<close> of the \<^verbatim>\<open>AlertBody\<close> be a finite \<^verbatim>\<open>float64\<close>
  \<open>r\<close> (with a \<^verbatim>\<open>Title\<close> and a generated identifier).
  \<^item> For \<open>0 \<le> r < 2^63\<close> the \<^verbatim>\<open>Timestamp\<close> of the \<^verbatim>\<open>Alert\<close> is the one of the specification:
    whole seconds \<open>floor r\<close> and nanoseconds \<open>(r - floor r) \<times> 1e9\<close>.
  \<^item> For \<open>r < 0\<close> (above \<open>-2^63 - 1\<close>) the whole seconds are \<^verbatim>\<open>int64(r)\<close>, which rounds toward
    zero (\<open>ceiling r\<close>), the nanoseconds are those of the remainder \<open>r - ceiling r \<le> 0\<close>,
    and \<^verbatim>\<open>time.Unix\<close> normalises the pair; the zero \<^verbatim>\<open>Time\<close> is replaced by the reading of
    the clock.
\<close>

theorem NewAlert_float64_timestamp:
  assumes "Timestamp body = AFloat64 (Finite r)" and "Title body \<noteq> []"
    and "uuid_NewV7 E = Inr i"
  shows "(0 \<le> r \<longrightarrow> r < 2 ^ 63 \<longrightarrow>
            NewAlert E ctx body =
              Return (Inr \<lparr>ID = i, Version = AlertSchemaVersion, JobID = JobIDFromCtx E ctx,
                           ResolvedTimestamp =
                             spec_float64_timestamp (int64_out_of_range E) r,
                           Body = body\<rparr>)) \<and>
         (r < 0 \<longrightarrow> - (2 ^ 63) \<le> \<lceil>r\<rceil> \<longrightarrow>
            float64_timestamp E (Finite r) =
              time_Unix (word_of_int \<lceil>r\<rceil>)
                (int64_of_float64 (int64_out_of_range E)
                   (float64_mul (float64_sub (Finite r) (round_f64 (of_int \<lceil>r\<rceil>)))
                      (Finite 1000000000))) \<and>
            NewAlert E ctx body =
              Return (Inr \<lparr>ID = i, Version = AlertSchemaVersion, JobID = JobIDFromCtx E ctx,
                           ResolvedTimestamp =
                             (if IsZero (float64_timestamp E (Finite r)) then time_Now E 0
                              else float64_timestamp E (Finite r)),
                           Body = body\<rparr>))"
proof (rule conjI; intro impI)
  assume r: "0 \<le> r" "r < 2 ^ 63"
  have s: "float64_timestamp E (Finite r) = spec_float64_timestamp (int64_out_of_range E) r"
    using r by (rule float64_timestamp_nonneg)
  have "0 \<le> \<lfloor>r\<rfloor>" "\<lfloor>r\<rfloor> < 2 ^ 63"
    using r by (simp_all add: floor_less_iff)
  then have "0 \<le> sint (word_of_int \<lfloor>r\<rfloor> :: int64)"
    by (simp add: sint_int64_of_int)
  then have "\<not> IsZero (spec_float64_timestamp (int64_out_of_range E) r)"
    unfolding spec_float64_timestamp_def Let_def by (rule time_Unix_nonneg_not_zero)
  then show "NewAlert E ctx body =
      Return (Inr \<lparr>ID = i, Version = AlertSchemaVersion, JobID = JobIDFromCtx E ctx,
                   ResolvedTimestamp = spec_float64_timestamp (int64_out_of_range E) r,
                   Body = body\<rparr>)"
    using NewAlert_float64 [OF assms, of ctx] by (simp add: s)
next
  assume r: "r < 0" "- (2 ^ 63) \<le> \<lceil>r\<rceil>"
  have t: "rat_trunc r = \<lceil>r\<rceil>" using r(1) by (rule rat_trunc_neg)
  have "\<lceil>r\<rceil> \<le> 0" using r(1) by (simp add: ceiling_le_iff)
  then have "float64_timestamp E (Finite r) =
      time_Unix (word_of_int \<lceil>r\<rceil>)
        (int64_of_float64 (int64_out_of_range E)
           (float64_mul (float64_sub (Finite r) (round_f64 (of_int \<lceil>r\<rceil>)))
              (Finite 1000000000)))"
    using float64_timestamp_in_range [of r E] r(2) by (simp add: t)
  then show "float64_timestamp E (Finite r) =
      time_Unix (word_of_int \<lceil>r\<rceil>)
        (int64_of_float64 (int64_out_of_range E)
           (float64_mul (float64_sub (Finite r) (round_f64 (of_int \<lceil>r\<rceil>)))
              (Finite 1000000000))) \<and>
    NewAlert E ctx body =
      Return (Inr \<lparr>ID = i, Version = AlertSchemaVersion, JobID = JobIDFromCtx E ctx,
                   ResolvedTimestamp =
                     (if IsZero (float64_timestamp E (Finite r)) then time_Now E 0
                      else float64_timestamp E (Finite r)),
                   Body = body\<rparr>)"
    using NewAlert_float64 [OF assms, of ctx] by simp
qed

lemma floor_rat_numeral:
  "\<lfloor>numeral a / numeral b :: rat\<rfloor> = numeral a div numeral b"
  "\<lfloor>- (numeral a / numeral b) :: rat\<rfloor> = - numeral a div numeral b"
  by (metis floor_divide_of_int_eq of_int_numeral,
      metis divide_minus_left floor_divide_of_int_eq of_int_neg_numeral of_int_numeral)

lemma ceiling_rat_numeral:
  "\<lceil>numeral a / numeral b :: rat\<rceil> = - (- numeral a div numeral b)"
  "\<lceil>- (numeral a / numeral b) :: rat\<rceil> = - (numeral a div numeral b)"
  by (simp_all add: ceiling_def floor_rat_numeral)

lemmas rat_numeral_rounding = rat_trunc_def floor_rat_numeral ceiling_rat_numeral

lemma round_f64_is:
  assumes "x = of_int m * 2 powi k" and "y = x"
    and "\<bar>m\<bar> < 2 ^ 53" and "- 1074 \<le> k" and "k \<le> 971"
  shows "round_f64 x = Finite y"
  using round_f64_exact [OF assms(1) assms(3-5)] assms(2) by simp

text \<open>
  Sanity checks of the rounding on values that are not representable: one tenth rounds
  to the binary64 number \<^verbatim>\<open>0x3FB999999999999A\<close>, and a tie goes to the even neighbour.
\<close>

lemma floor_log2_unique:
  assumes "2 powi e \<le> r" and "r < 2 powi (e + 1)"
  shows "floor_log2 r = e"
proof -
  have "0 < r" using assms(1) by (rule less_le_trans [rotated]) simp
  from floor_log2_bounds [OF this]
  have b: "2 powi (floor_log2 r) \<le> r" "r < 2 powi (floor_log2 r + 1)" by simp_all
  have "(2::rat) powi e < 2 powi (floor_log2 r + 1)"
    using assms(1) b(2) by simp
  then have "e < floor_log2 r + 1"
    by (metis linorder_not_le one_le_numeral power_int_increasing)
  moreover have "(2::rat) powi (floor_log2 r) < 2 powi (e + 1)"
    using assms(2) b(1) by simp
  then have "floor_log2 r < e + 1"
    by (metis linorder_not_le one_le_numeral power_int_increasing)
  ultimately show ?thesis by simp
qed

lemma round_f64_normal:
  assumes "2 powi e \<le> \<bar>r\<bar>" and "\<bar>r\<bar> < 2 powi (e + 1)" and "- 1022 \<le> e"
    and "round_half_even (r / 2 powi (e - 52)) = m"
    and "y = of_int m * 2 powi (e - 52)" and "\<bar>y\<bar> < 2 powi 1024"
  shows "round_f64 r = Finite y"
proof -
  have "0 < \<bar>r\<bar>" using assms(1) by (rule less_le_trans [rotated]) simp
  then have "r \<noteq> 0" by simp
  moreover have "max (floor_log2 \<bar>r\<bar>) (- 1022) = e"
    using floor_log2_unique [OF assms(1,2)] assms(3) by simp
  ultimately show ?thesis
    using assms(4-6) by (simp add: round_f64_def Let_def)
qed

lemma round_f64_tenth: "round_f64 (1 / 10) = Finite (3602879701896397 / 36028797018963968)"
  by (rule round_f64_normal [where e = "- 4" and m = 7205759403792794])
     (simp_all add: power_int_minus round_half_even_def floor_rat_numeral)

lemma round_f64_ties_to_even:
  "round_f64 (2 ^ 53 + 1) = Finite (2 ^ 53)"
  "round_f64 (2 ^ 53 + 3) = Finite (2 ^ 53 + 4)"
  by (rule round_f64_normal [where e = 53 and m = 4503599627370496],
      simp_all add: round_half_even_def floor_rat_numeral,
      rule round_f64_normal [where e = 53 and m = 4503599627370498],
      simp_all add: round_half_even_def floor_rat_numeral)

lemma float64_timestamp_eval:
  assumes "rat_trunc r = s" and "- (2 ^ 63) \<le> s" and "s < 2 ^ 63"
    and "round_f64 (of_int s) = Finite w"
    and "round_f64 (r - w) = Finite f"
    and "round_f64 (f * 1000000000) = Finite p"
    and "rat_trunc p = n" and "- (2 ^ 63) \<le> n" and "n < 2 ^ 63"
  shows "float64_timestamp E (Finite r) = time_Unix (word_of_int s) (word_of_int n)"
  using assms
  by (simp add: float64_timestamp_in_range int64_of_float64_in_range)

lemma spec_float64_timestamp_eval:
  assumes "\<lfloor>r\<rfloor> = s"
    and "round_f64 (of_int s) = Finite w"
    and "round_f64 (r - w) = Finite f"
    and "round_f64 (f * 1000000000) = Finite p"
    and "rat_trunc p = n" and "- (2 ^ 63) \<le> n" and "n < 2 ^ 63"
  shows "spec_float64_timestamp oor r = time_Unix (word_of_int s) (word_of_int n)"
  using assms
  by (simp add: spec_float64_timestamp_def Let_def int64_of_float64_in_range)

lemma spec_float64_timestamp_example:
  "spec_float64_timestamp oor (1704165845 + 1 / 2) = time_Unix 1704165845 500000000"
proof -
  have "spec_float64_timestamp oor (1704165845 + 1 / 2) =
      time_Unix (word_of_int 1704165845) (word_of_int 500000000)"
  proof (rule spec_float64_timestamp_eval
      [where w = 1704165845 and f = "1 / 2" and p = 500000000])
    show "\<lfloor>1704165845 + 1 / 2 :: rat\<rfloor> = 1704165845"
      by (simp add: rat_numeral_rounding)
    show "round_f64 (of_int 1704165845) = Finite 1704165845"
      by (rule round_f64_is [where m = 1704165845 and k = 0]) simp_all
    show "round_f64 (1704165845 + 1 / 2 - 1704165845) = Finite (1 / 2)"
      by (rule round_f64_is [where m = 1 and k = "- 1"]) simp_all
    show "round_f64 (1 / 2 * 1000000000) = Finite 500000000"
      by (rule round_f64_is [where m = 500000000 and k = 0]) simp_all
    show "rat_trunc 500000000 = 500000000"
      by (simp add: rat_trunc_def)
  qed simp_all
  then show ?thesis by simp
qed

lemma time_Unix_half_before_epoch:
  "time_Unix 0 (- 500000000) = \<lparr>sec = 62135596799, nsec = 500000000\<rparr>"
  by (simp add: time_Unix_def int64_quo_def unixTime_def unixToInternal_eq word_sless_alt
      signed_divide_int_def)

lemma time_Unix_before_epoch:
  "time_Unix (- 1) 499999999 = \<lparr>sec = 62135596799, nsec = 499999999\<rparr>"
  by (simp add: time_Unix_def unixTime_def unixToInternal_eq word_sless_alt word_sle_eq)

lemma before_epoch_is_float64: "is_float64 (Finite (- (1 / 2 + 3 / 2 ^ 32)))"
  unfolding is_float64_def float64.case
  by (rule round_f64_exact [where m = "- 2147483651" and k = "- 32"]) simp_all

lemma float64_timestamp_before_epoch:
  "float64_timestamp E (Finite (- (1 / 2 + 3 / 2 ^ 32))) = time_Unix 0 (- 500000000)"
proof -
  have "float64_timestamp E (Finite (- (1 / 2 + 3 / 2 ^ 32))) =
      time_Unix (word_of_int 0) (word_of_int (- 500000000))"
  proof (rule float64_timestamp_eval
      [where w = 0 and f = "- (1 / 2 + 3 / 2 ^ 32)"
         and p = "- (4194304005859375 / 8388608)"])
    show "rat_trunc (- (1 / 2 + 3 / 2 ^ 32)) = 0"
      by (simp add: rat_numeral_rounding)
    show "round_f64 (of_int 0) = Finite 0"
      by (simp add: round_f64_def)
    show "round_f64 (- (1 / 2 + 3 / 2 ^ 32) - 0) = Finite (- (1 / 2 + 3 / 2 ^ 32))"
      by (rule round_f64_is [where m = "- 2147483651" and k = "- 32"]) simp_all
    show "round_f64 (- (1 / 2 + 3 / 2 ^ 32) * 1000000000) =
        Finite (- (4194304005859375 / 8388608))"
      by (rule round_f64_is [where m = "- 4194304005859375" and k = "- 23"]) simp_all
    show "rat_trunc (- (4194304005859375 / 8388608)) = - 500000000"
      by (simp add: rat_numeral_rounding)
  qed simp_all
  then show ?thesis by simp
qed

lemma spec_float64_timestamp_before_epoch:
  "spec_float64_timestamp oor (- (1 / 2 + 3 / 2 ^ 32)) = time_Unix (- 1) 499999999"
proof -
  have "spec_float64_timestamp oor (- (1 / 2 + 3 / 2 ^ 32)) =
      time_Unix (word_of_int (- 1)) (word_of_int 499999999)"
  proof (rule spec_float64_timestamp_eval
      [where w = "- 1" and f = "2147483645 / 4294967296"
         and p = "4194303994140625 / 8388608"])
    show "\<lfloor>- (1 / 2 + 3 / 2 ^ 32) :: rat\<rfloor> = - 1"
      by (simp add: rat_numeral_rounding)
    show "round_f64 (of_int (- 1)) = Finite (- 1)"
      by (rule round_f64_is [where m = "- 1" and k = 0]) simp_all
    show "round_f64 (- (1 / 2 + 3 / 2 ^ 32) - - 1) = Finite (2147483645 / 4294967296)"
      by (rule round_f64_is [where m = "2147483645" and k = "- 32"]) simp_all
    show "round_f64 (2147483645 / 4294967296 * 1000000000) =
        Finite (4194303994140625 / 8388608)"
      by (rule round_f64_is [where m = "4194303994140625" and k = "- 23"]) simp_all
    show "rat_trunc (4194303994140625 / 8388608) = 499999999"
      by (simp add: rat_numeral_rounding)
  qed simp_all
  then show ?thesis by simp
qed

theorem NewAlert_float64_timestamp_witness:
  "NewAlert example_env () (example_body (AFloat64 (Finite (1704165845 + 1 / 2)))) =
     Return (Inr (example_alert (time_Unix 1704165845 500000000)
                    (AFloat64 (Finite (1704165845 + 1 / 2))))) \<and>
   NewAlert example_env () (example_body (AFloat64 (Finite (- (1 / 2 + 3 / 2 ^ 32))))) =
     Return (Inr (example_alert (time_Unix 0 (- 500000000))
                    (AFloat64 (Finite (- (1 / 2 + 3 / 2 ^ 32))))))"
proof -
  have pos: "(0::rat) \<le> 1704165845 + 1 / 2" "(1704165845 + 1 / 2 :: rat) < 2 ^ 63"
    by simp_all
  have neg: "- (1 / 2 + 3 / 2 ^ 32) < (0::rat)" "- (2 ^ 63) \<le> \<lceil>- (1 / 2 + 3 / 2 ^ 32) :: rat\<rceil>"
    by (simp_all add: rat_numeral_rounding)
  have nz: "\<not> IsZero (time_Unix 0 (- 500000000))"
    by (simp add: time_Unix_half_before_epoch IsZero_def)
  have a: "NewAlert example_env () (example_body (AFloat64 (Finite (1704165845 + 1 / 2)))) =
      Return (Inr (example_alert (time_Unix 1704165845 500000000)
                     (AFloat64 (Finite (1704165845 + 1 / 2)))))"
    using pos
      NewAlert_float64_timestamp
        [OF example_timestamp [of "AFloat64 (Finite (1704165845 + 1 / 2))"] example_title
          example_uuid, of "()"]
    by (simp only: spec_float64_timestamp_example example_alert_def AlertSchemaVersion_def
        example_job simp_thms)
  have b: "NewAlert example_env () (example_body (AFloat64 (Finite (- (1 / 2 + 3 / 2 ^ 32))))) =
      Return (Inr (example_alert (time_Unix 0 (- 500000000))
                     (AFloat64 (Finite (- (1 / 2 + 3 / 2 ^ 32))))))"
    using neg nz
      NewAlert_float64_timestamp
        [OF example_timestamp [of "AFloat64 (Finite (- (1 / 2 + 3 / 2 ^ 32)))"] example_title
          example_uuid, of "()"]
    by (simp only: float64_timestamp_before_epoch example_alert_def AlertSchemaVersion_def
        example_job simp_thms if_False)
  from a b show ?thesis ..
qed

text \<open>
  The claim as stated (for every float, negative ones included, the nanoseconds are those
  of \<open>(v - floor v) \<times> 1e9\<close>) is false at \<open>v = -(1/2 + 3/2^32)\<close>, a \<^verbatim>\<open>float64\<close> on which every
  operation involved is exact: the code resolves half a second before the epoch, the
  formula one nanosecond earlier (its remainder is 499999999.3015 nanoseconds, which is
  499999999 whether it is truncated or rounded to nearest).
\<close>

theorem NewAlert_float64_timestamp_counterexample:
  "is_float64 (Finite (- (1 / 2 + 3 / 2 ^ 32))) \<and>
   NewAlert example_env () (example_body (AFloat64 (Finite (- (1 / 2 + 3 / 2 ^ 32))))) =
     Return (Inr (example_alert \<lparr>sec = 62135596799, nsec = 500000000\<rparr>
                    (AFloat64 (Finite (- (1 / 2 + 3 / 2 ^ 32)))))) \<and>
   spec_float64_timestamp (int64_out_of_range example_env) (- (1 / 2 + 3 / 2 ^ 32)) =
     \<lparr>sec = 62135596799, nsec = 499999999\<rparr> \<and>
   \<lparr>sec = 62135596799, nsec = 500000000\<rparr> \<noteq> \<lparr>sec = 62135596799, nsec = 499999999 :: int32\<rparr>"
proof -
  have nz: "\<not> IsZero (time_Unix 0 (- 500000000))"
    by (simp add: time_Unix_half_before_epoch IsZero_def)
  have "NewAlert example_env () (example_body (AFloat64 (Finite (- (1 / 2 + 3 / 2 ^ 32))))) =
      Return (Inr (example_alert (time_Unix 0 (- 500000000))
                     (AFloat64 (Finite (- (1 / 2 + 3 / 2 ^ 32))))))"
    using nz
      NewAlert_float64
        [OF example_timestamp [of "AFloat64 (Finite (- (1 / 2 + 3 / 2 ^ 32)))"] example_title
          example_uuid, of "()"]
    by (simp only: float64_timestamp_before_epoch example_alert_def AlertSchemaVersion_def
        example_job if_False)
  then have "NewAlert example_env () (example_body (AFloat64 (Finite (- (1 / 2 + 3 / 2 ^ 32))))) =
      Return (Inr (example_alert \<lparr>sec = 62135596799, nsec = 500000000\<rparr>
                     (AFloat64 (Finite (- (1 / 2 + 3 / 2 ^ 32))))))"
    by (simp only: time_Unix_half_before_epoch)
  moreover have "spec_float64_timestamp (int64_out_of_range example_env)
      (- (1 / 2 + 3 / 2 ^ 32)) = \<lparr>sec = 62135596799, nsec = 499999999\<rparr>"
    by (simp only: spec_float64_timestamp_before_epoch time_Unix_before_epoch)
  moreover have "\<lparr>sec = 62135596799, nsec = 500000000\<rparr> \<noteq>
      \<lparr>sec = 62135596799, nsec = 499999999 :: int32\<rparr>"
    by simp
  ultimately show ?thesis
    using before_epoch_is_float64 by (intro conjI)
qed

end
